theory Spec2Isabelle
  imports Complex_Main "HOL-Library.Sublist"
begin

section \<open>Values of the JavaScript runtime\<close>

text \<open>
  The application is a React front end. Its data arrives as JSON documents, its forms hold
  text, and its numbers are JavaScript numbers. A JavaScript string is modelled as a
  \<^typ>\<open>string\<close> (one \<^typ>\<open>char\<close> per code unit, which covers the ASCII and Latin-1
  range); an object is the list of its own properties in enumeration order, with
  distinct keys, as \<open>JSON.parse\<close> produces it.
\<close>

datatype json =
    JNull
  | JBool bool
  | JNum rat
  | JStr string
  | JArr "json list"
  | JObj "(string \<times> json) list"

text \<open>What a \<open>throw\<close> carries; \<open>Inl\<close> of a result is a pending exception.\<close>

datatype exn = TypeError | SyntaxError | Error string

text \<open>
  A number of the page's own state: \<open>parseInt\<close> and \<open>parseFloat\<close> can produce
  \<open>NaN\<close> and the infinities. Finite values are kept exact (no rounding to a double).
\<close>

datatype jsnum = NaN | Fin rat | PosInf | NegInf

text \<open>\<open>a === b\<close> on numbers: \<open>NaN\<close> is not equal to itself.\<close>

definition strict_eq :: "jsnum \<Rightarrow> jsnum \<Rightarrow> bool" where
  "strict_eq a b = (a \<noteq> NaN \<and> a = b)"

text \<open>\<open>xs.includes(x)\<close> compares with SameValueZero, under which \<open>NaN\<close> equals itself.\<close>

definition array_includes :: "jsnum list \<Rightarrow> jsnum \<Rightarrow> bool" where
  "array_includes xs x = (x \<in> set xs)"

section \<open>The data access gateway: \<open>src/services/api.js\<close>\<close>

text \<open>The build-time environment \<open>import.meta.env\<close>; an unset variable is \<open>None\<close>.\<close>

record env =
  VITE_API_MODE :: "string option"
  VITE_MOCK_API_URL :: "string option"
  VITE_API_URL :: "string option"

text \<open>\<open>v || d\<close> for a string or \<open>undefined\<close>: the empty string is falsy too.\<close>

definition or_default :: "string option \<Rightarrow> string \<Rightarrow> string" where
  "or_default v d = (case v of None \<Rightarrow> d | Some s \<Rightarrow> if s = [] then d else s)"

definition API_MODE :: "env \<Rightarrow> string" where
  "API_MODE e = or_default (VITE_API_MODE e) ''api''"

definition MOCK_API_URL :: "env \<Rightarrow> string" where
  "MOCK_API_URL e = or_default (VITE_MOCK_API_URL e) ''http://localhost:3001''"

definition BACKEND_API_URL :: "env \<Rightarrow> string" where
  "BACKEND_API_URL e = or_default (VITE_API_URL e) ''https://your-backend-api.com/api''"

text \<open>
  The browser's \<open>fetch\<close>: the promise rejects (network error) or resolves to a response
  with its \<open>ok\<close> flag, its status text, and the value \<open>response.json()\<close> yields
  (\<open>None\<close> when the body is not JSON and \<open>response.json()\<close> rejects).
\<close>

datatype response = Response (ok: bool) (statusText: string) (json_body: "json option")

datatype fetch_outcome = Rejected | Resolved response

type_synonym network = "string \<Rightarrow> fetch_outcome"

text \<open>Lines 9 to 17 of \<open>fetchData\<close>: the URL the mode selects.\<close>

definition request_url :: "env \<Rightarrow> string \<Rightarrow> string" where
  "request_url e endpoint =
     (if API_MODE e = ''api'' then BACKEND_API_URL e @ ''/'' @ endpoint
      else if API_MODE e = ''mock'' then MOCK_API_URL e @ ''/'' @ endpoint
      else ''/data/'' @ endpoint @ ''.json'')"

text \<open>The body of the \<open>try\<close> block of \<open>fetchData\<close>.\<close>

definition fetchData_try :: "env \<Rightarrow> network \<Rightarrow> string \<Rightarrow> exn + json list" where
  "fetchData_try e net endpoint =
     (case net (request_url e endpoint) of
        Rejected \<Rightarrow> Inl TypeError
      | Resolved response \<Rightarrow>
          if \<not> ok response
          then Inl (Error (''Failed to fetch '' @ endpoint @ '': '' @ statusText response))
          else (case json_body response of
                  None \<Rightarrow> Inl SyntaxError
                | Some data \<Rightarrow> Inr (case data of JArr xs \<Rightarrow> xs | _ \<Rightarrow> [data])))"

text \<open>
  \<open>fetchData\<close> with its \<open>catch\<close>. The result type keeps a place for an exception that
  would reach the caller, so that its absence is a statement about the function.
\<close>

definition fetchData :: "env \<Rightarrow> network \<Rightarrow> string \<Rightarrow> exn + json list" where
  "fetchData e net endpoint =
     (case fetchData_try e net endpoint of
        Inr data \<Rightarrow> Inr data
      | Inl error \<Rightarrow> Inr [])"

definition getApiMode :: "env \<Rightarrow> string" where
  "getApiMode e = API_MODE e"

definition isUsingMockServer :: "env \<Rightarrow> bool" where
  "isUsingMockServer e = (API_MODE e = ''mock'')"

definition isUsingBackendAPI :: "env \<Rightarrow> bool" where
  "isUsingBackendAPI e = (API_MODE e = ''api'')"

section \<open>The session store: \<open>src/contexts/AuthProvider.jsx\<close>\<close>

text \<open>
  \<open>JSON.parse\<close> and \<open>JSON.stringify\<close> belong to the runtime, not to the repository:
  they are parameters of the model. \<open>parse\<close> yields \<open>None\<close> where \<open>JSON.parse\<close>
  throws a \<open>SyntaxError\<close>.
\<close>

record js_JSON =
  parse :: "string \<Rightarrow> json option"
  stringify :: "json \<Rightarrow> string"

text \<open>
  The provider's state: the \<open>user\<close> of \<open>useState(null)\<close> (\<^term>\<open>JNull\<close> is \<open>null\<close>)
  and the browser's \<open>localStorage\<close>, whose writes are taken to succeed.
\<close>

record session =
  user :: json
  localStorage :: "string \<Rightarrow> string option"

text \<open>Truthiness of a JSON value, as \<open>if (v)\<close> and \<open>!!v\<close> read it.\<close>

fun truthy :: "json \<Rightarrow> bool" where
  "truthy JNull = False"
| "truthy (JBool b) = b"
| "truthy (JNum n) = (n \<noteq> 0)"
| "truthy (JStr s) = (s \<noteq> [])"
| "truthy (JArr xs) = True"
| "truthy (JObj kvs) = True"

text \<open>
  \<open>v.k\<close> for a data key \<open>k\<close>: reading a property of \<open>null\<close> throws, an object yields
  its own property or \<open>undefined\<close> (\<open>None\<close>), and any other value has no such property.
\<close>

fun get_prop :: "json \<Rightarrow> string \<Rightarrow> exn + json option" where
  "get_prop JNull k = Inl TypeError"
| "get_prop (JObj kvs) k = Inr (map_of kvs k)"
| "get_prop v k = Inr None"

text \<open>\<open>xs.find(p)\<close>, where the callback may throw.\<close>

fun js_find :: "('a \<Rightarrow> exn + bool) \<Rightarrow> 'a list \<Rightarrow> exn + 'a option" where
  "js_find p [] = Inr None"
| "js_find p (x # xs) =
     (case p x of
        Inl error \<Rightarrow> Inl error
      | Inr True \<Rightarrow> Inr (Some x)
      | Inr False \<Rightarrow> js_find p xs)"

text \<open>
  The callback of \<open>login\<close>: \<open>(u) => u.username === username && u.password === password\<close>,
  with \<open>username\<close> and \<open>password\<close> the strings of the login form.
\<close>

definition credentials_match :: "string \<Rightarrow> string \<Rightarrow> json \<Rightarrow> exn + bool" where
  "credentials_match username password u =
     (case get_prop u ''username'' of
        Inl error \<Rightarrow> Inl error
      | Inr a \<Rightarrow>
          if a = Some (JStr username)
          then (case get_prop u ''password'' of
                  Inl error \<Rightarrow> Inl error
                | Inr b \<Rightarrow> Inr (b = Some (JStr password)))
          else Inr False)"

text \<open>
  \<open>const { password: _, ...userWithoutPassword } = foundUser\<close>: the own properties but one.
  A primitive has no own data property; arrays and strings, whose indices would be
  copied, never pass the callback above.
\<close>

fun rest_without :: "string \<Rightarrow> json \<Rightarrow> json" where
  "rest_without k (JObj kvs) = JObj (filter (\<lambda>kv. fst kv \<noteq> k) kvs)"
| "rest_without k v = JObj []"

text \<open>
  The effect of \<open>useEffect\<close> at mount: the exception that leaves the effect, if any, and
  the session after it. Nothing in the effect catches what \<open>JSON.parse\<close> throws.
\<close>

definition restore :: "js_JSON \<Rightarrow> session \<Rightarrow> exn option \<times> session" where
  "restore J s =
     (case localStorage s ''user'' of
        None \<Rightarrow> (None, s)
      | Some savedUser \<Rightarrow>
          if savedUser = [] then (None, s)
          else (case parse J savedUser of
                  None \<Rightarrow> (Some SyntaxError, s)
                | Some v \<Rightarrow> (None, s\<lparr>user := v\<rparr>)))"

definition login :: "js_JSON \<Rightarrow> env \<Rightarrow> network \<Rightarrow> session \<Rightarrow> string \<Rightarrow> string \<Rightarrow> bool \<times> session" where
  "login J e net s username password =
     (case fetchData e net ''users'' of
        Inl error \<Rightarrow> (False, s)
      | Inr users \<Rightarrow>
          (case js_find (credentials_match username password) users of
             Inl error \<Rightarrow> (False, s)
           | Inr None \<Rightarrow> (False, s)
           | Inr (Some foundUser) \<Rightarrow>
               if truthy foundUser
               then (let userWithoutPassword = rest_without ''password'' foundUser
                     in (True, s\<lparr>user := userWithoutPassword,
                                 localStorage := (localStorage s)
                                   (''user'' \<mapsto> stringify J userWithoutPassword)\<rparr>))
               else (False, s)))"

definition logout :: "session \<Rightarrow> session" where
  "logout s = s\<lparr>user := JNull, localStorage := (localStorage s)(''user'' := None)\<rparr>"

text \<open>\<open>isAuthenticated: !!user\<close>\<close>

definition isAuthenticated :: "session \<Rightarrow> bool" where
  "isAuthenticated s = truthy (user s)"

subsection \<open>The provider of \<open>unnamed/part_002\<close>\<close>

text \<open>
  A second provider, under the storage key \<open>authenticatedUser\<close>. Its effect catches the
  parse error, its \<open>login\<close> reads \<open>/data/users.json\<close> directly (no \<open>ok\<close> check; a body
  that is not an array has no \<open>find\<close>) and builds the identity from four named fields;
  a field the record lacks would be \<open>undefined\<close> and is left out.
\<close>

definition restore_p2 :: "js_JSON \<Rightarrow> session \<Rightarrow> exn option \<times> session" where
  "restore_p2 J s =
     (case localStorage s ''authenticatedUser'' of
        None \<Rightarrow> (None, s)
      | Some storedUser \<Rightarrow>
          if storedUser = [] then (None, s)
          else (case parse J storedUser of
                  Some v \<Rightarrow> (None, s\<lparr>user := v\<rparr>)
                | None \<Rightarrow>
                    (None, s\<lparr>localStorage := (localStorage s)(''authenticatedUser'' := None)\<rparr>)))"

definition pick_fields :: "string list \<Rightarrow> json \<Rightarrow> json" where
  "pick_fields ks v =
     JObj (List.map_filter
             (\<lambda>k. case get_prop v k of Inr (Some x) \<Rightarrow> Some (k, x) | _ \<Rightarrow> None) ks)"


definition logout_p2 :: "session \<Rightarrow> session" where
  "logout_p2 s = s\<lparr>user := JNull, localStorage := (localStorage s)(''authenticatedUser'' := None)\<rparr>"

text \<open>\<open>const isAuthenticated = user !== null\<close>\<close>

definition isAuthenticated_p2 :: "session \<Rightarrow> bool" where
  "isAuthenticated_p2 s = (user s \<noteq> JNull)"

section \<open>Strings and numbers of the inventory page\<close>

text \<open>White space as \<open>trim\<close>, \<open>parseInt\<close> and \<open>parseFloat\<close> skip it (the code units up to U+00FF).\<close>

definition is_space :: "char \<Rightarrow> bool" where
  "is_space c = (c \<in> set [CHR 0x09, CHR 0x0A, CHR 0x0B, CHR 0x0C, CHR 0x0D, CHR 0x20, CHR 0xA0])"

definition trim :: "string \<Rightarrow> string" where
  "trim s = rev (dropWhile is_space (rev (dropWhile is_space s)))"

text \<open>
  \<open>toLowerCase\<close> on the code units up to U+00FF: the letters A to Z, and U+00C0 to
  U+00DE but for the multiplication sign U+00D7, move up by 32.
\<close>

definition lower_char :: "char \<Rightarrow> char" where
  "lower_char c =
     (let n = (of_char c :: nat)
      in if (65 \<le> n \<and> n \<le> 90) \<or> (192 \<le> n \<and> n \<le> 222 \<and> n \<noteq> 215)
         then char_of (n + 32) else c)"

definition toLowerCase :: "string \<Rightarrow> string" where
  "toLowerCase s = map lower_char s"

text \<open>\<open>hay.includes(needle)\<close> on strings: \<open>needle\<close> occurs in \<open>hay\<close> as a contiguous run.\<close>

fun str_includes :: "string \<Rightarrow> string \<Rightarrow> bool" where
  "str_includes [] needle = (needle = [])"
| "str_includes (c # cs) needle = (prefix needle (c # cs) \<or> str_includes cs needle)"

text \<open>The value of a digit in some radix, for \<open>0-9\<close>, \<open>a-z\<close> and \<open>A-Z\<close>.\<close>

definition digit_value :: "char \<Rightarrow> nat option" where
  "digit_value c =
     (let n = (of_char c :: nat)
      in if 48 \<le> n \<and> n \<le> 57 then Some (n - 48)
         else if 97 \<le> n \<and> n \<le> 122 then Some (n - 87)
         else if 65 \<le> n \<and> n \<le> 90 then Some (n - 55)
         else None)"

definition is_digit_in :: "nat \<Rightarrow> char \<Rightarrow> bool" where
  "is_digit_in R c = (case digit_value c of Some d \<Rightarrow> d < R | None \<Rightarrow> False)"

definition digits_value :: "nat \<Rightarrow> string \<Rightarrow> nat" where
  "digits_value R Z = foldl (\<lambda>acc c. acc * R + (case digit_value c of Some d \<Rightarrow> d | None \<Rightarrow> 0)) 0 Z"

text \<open>
  \<open>parseInt(string, radix)\<close>, with \<open>None\<close> for an omitted radix: leading white space and a
  sign are skipped, a \<open>0x\<close> prefix selects radix 16 when the radix is omitted or 16, and
  the longest run of digits is read; no digit gives \<open>NaN\<close>. The result is exact (the
  runtime rounds beyond \<open>2^53\<close>, and keeps the sign of \<open>-0\<close>).
\<close>

definition parseInt :: "string \<Rightarrow> nat option \<Rightarrow> jsnum" where
  "parseInt string radix =
     (let S = dropWhile is_space string;
          sign = (if S \<noteq> [] \<and> hd S = CHR ''-'' then - 1 else (1::rat));
          S1 = (if S \<noteq> [] \<and> (hd S = CHR ''+'' \<or> hd S = CHR ''-'') then tl S else S);
          R = (case radix of None \<Rightarrow> 0 | Some r \<Rightarrow> r)
      in if R \<noteq> 0 \<and> (R < 2 \<or> 36 < R) then NaN
         else (let stripPrefix = (R = 0 \<or> R = 16);
                   hex = (stripPrefix \<and> (prefix ''0x'' S1 \<or> prefix ''0X'' S1));
                   S2 = (if hex then drop 2 S1 else S1);
                   R1 = (if hex then 16 else if R = 0 then 10 else R);
                   Z = takeWhile (is_digit_in R1) S2
               in if Z = [] then NaN else Fin (sign * of_nat (digits_value R1 Z))))"

text \<open>
  \<open>parseFloat(string)\<close>: leading white space, a sign, then \<open>Infinity\<close> or the longest
  decimal literal (digits, a fraction, an exponent with at least one digit); anything
  else gives \<open>NaN\<close>. The value is the exact decimal (no rounding, no overflow, and
  \<open>-0\<close> is \<open>0\<close>).
\<close>

definition parseFloat :: "string \<Rightarrow> jsnum" where
  "parseFloat string =
     (let S = dropWhile is_space string;
          negative = (S \<noteq> [] \<and> hd S = CHR ''-'');
          S1 = (if S \<noteq> [] \<and> (hd S = CHR ''+'' \<or> hd S = CHR ''-'') then tl S else S)
      in if prefix ''Infinity'' S1 then (if negative then NegInf else PosInf)
         else (let ip = takeWhile (is_digit_in 10) S1;
                   S2 = dropWhile (is_digit_in 10) S1;
                   dotted = (S2 \<noteq> [] \<and> hd S2 = CHR ''.'');
                   fp = (if dotted then takeWhile (is_digit_in 10) (tl S2) else []);
                   S3 = (if dotted then dropWhile (is_digit_in 10) (tl S2) else S2)
               in if ip = [] \<and> fp = [] then NaN
                  else (let marked = (S3 \<noteq> [] \<and> (hd S3 = CHR ''e'' \<or> hd S3 = CHR ''E''));
                            S4 = (if marked then tl S3 else []);
                            eneg = (S4 \<noteq> [] \<and> hd S4 = CHR ''-'');
                            S5 = (if S4 \<noteq> [] \<and> (hd S4 = CHR ''+'' \<or> hd S4 = CHR ''-'')
                                  then tl S4 else S4);
                            ep = digits_value 10 (takeWhile (is_digit_in 10) S5);
                            m = (of_nat (digits_value 10 (ip @ fp)) :: rat) / 10 ^ length fp;
                            v = (if eneg then m / 10 ^ ep else m * 10 ^ ep)
                        in Fin (if negative then - v else v))))"

section \<open>The inventory page: \<open>src/pages/Inventory.jsx\<close> (\<open>unnamed/part_003\<close>)\<close>

text \<open>
  An entry of the inventory collection and a book of the catalog. The source's field
  \<open>id\<close> is \<open>id_item\<close> on an entry, \<open>id_book\<close> on a book and \<open>id_row\<close> on a table row.
\<close>

record inventory_item =
  id_item :: jsnum
  store_id :: jsnum
  book_id :: jsnum
  price :: jsnum

record book =
  id_book :: jsnum
  name :: string
  author_id :: jsnum
  page_count :: jsnum

text \<open>A row of the table (\<open>row.original\<close>): a book of the store with its price.\<close>

record store_book =
  id_row :: jsnum
  price_row :: jsnum

text \<open>
  What the component reads and writes: the session of \<open>useAuth()\<close>, the route parameter,
  the collections of \<open>useLibraryData\<close> and the \<open>useState\<close> cells of the dialogs.
\<close>

record page =
  auth :: session
  storeId :: string
  inventory :: "inventory_item list"
  books :: "book list"
  authorMap :: "jsnum \<Rightarrow> string option"
  showAddModal :: bool
  showEditModal :: bool
  showDeleteModal :: bool
  editingBook :: "store_book option"
  editPrice :: string
  deletingBook :: "store_book option"
  selectedBookId :: string
  newPrice :: string
  bookSearchTerm :: string

definition closeAddModal :: "page \<Rightarrow> page" where
  "closeAddModal st =
     st\<lparr>showAddModal := False, selectedBookId := [], newPrice := [], bookSearchTerm := []\<rparr>"

definition closeEditModal :: "page \<Rightarrow> page" where
  "closeEditModal st = st\<lparr>showEditModal := False, editingBook := None, editPrice := []\<rparr>"

definition closeDeleteModal :: "page \<Rightarrow> page" where
  "closeDeleteModal st = st\<lparr>showDeleteModal := False, deletingBook := None\<rparr>"

text \<open>A non-empty string is truthy: \<open>if (selectedBookId && newPrice)\<close>.\<close>

definition handleAddBook :: "page \<Rightarrow> page" where
  "handleAddBook st =
     (if selectedBookId st \<noteq> [] \<and> newPrice st \<noteq> []
      then (let newItem = \<lparr>id_item = Fin (of_nat (length (inventory st)) + 1),
                            store_id = parseInt (storeId st) None,
                            book_id = parseInt (selectedBookId st) None,
                            price = parseFloat (newPrice st)\<rparr>
            in closeAddModal (st\<lparr>inventory := inventory st @ [newItem]\<rparr>))
      else st)"

definition handleEditPrice :: "page \<Rightarrow> jsnum \<Rightarrow> jsnum \<Rightarrow> page" where
  "handleEditPrice st bookId newPrice' =
     st\<lparr>inventory :=
          map (\<lambda>item. if strict_eq (store_id item) (parseInt (storeId st) (Some 10))
                          \<and> strict_eq (book_id item) bookId
                       then item\<lparr>price := newPrice'\<rparr> else item)
              (inventory st)\<rparr>"

definition handleSaveEdit :: "page \<Rightarrow> page" where
  "handleSaveEdit st =
     (case editingBook st of
        None \<Rightarrow> st
      | Some b \<Rightarrow>
          if editPrice st \<noteq> []
          then closeEditModal (handleEditPrice st (id_row b) (parseFloat (editPrice st)))
          else st)"

definition handleDeleteBook :: "page \<Rightarrow> jsnum \<Rightarrow> page" where
  "handleDeleteBook st bookId =
     closeDeleteModal
       (st\<lparr>inventory :=
             filter (\<lambda>item. \<not> (strict_eq (store_id item) (parseInt (storeId st) (Some 10))
                                 \<and> strict_eq (book_id item) bookId))
                    (inventory st)\<rparr>)"

definition confirmDelete :: "page \<Rightarrow> page" where
  "confirmDelete st =
     (case deletingBook st of None \<Rightarrow> st | Some b \<Rightarrow> handleDeleteBook st (id_row b))"

definition availableBooks :: "page \<Rightarrow> book list" where
  "availableBooks st =
     (let booksInStore =
            map book_id
              (filter (\<lambda>item. strict_eq (store_id item) (parseInt (storeId st) (Some 10)))
                      (inventory st))
      in filter (\<lambda>book. \<not> array_includes booksInStore (id_book book)) (books st))"

definition filteredAvailableBooks :: "page \<Rightarrow> book list" where
  "filteredAvailableBooks st =
     (let filtered =
            (if trim (bookSearchTerm st) \<noteq> []
             then filter (\<lambda>book. str_includes (toLowerCase (name book))
                                                (toLowerCase (bookSearchTerm st)))
                         (availableBooks st)
             else availableBooks st)
      in take 7 filtered)"

text \<open>The headers of the table's columns; the last one only for a signed-in user.\<close>

definition columns :: "page \<Rightarrow> string list" where
  "columns st =
     [''Book Id'', ''Name'', ''Pages'', ''Author'', ''Price'']
     @ (if isAuthenticated (auth st) then [''Actions''] else [])"

section \<open>The contract in the words of the specification\<close>

text \<open>At most one entry for each pair of a store and a book.\<close>

definition one_entry_per_pair :: "inventory_item list \<Rightarrow> bool" where
  "one_entry_per_pair items = distinct (map (\<lambda>item. (store_id item, book_id item)) items)"

text \<open>The collection holds an entry of store \<open>s\<close> for the book numbered \<open>b\<close>.\<close>

definition has_entry :: "inventory_item list \<Rightarrow> jsnum \<Rightarrow> jsnum \<Rightarrow> bool" where
  "has_entry items s b = (\<exists>item \<in> set items. store_id item = s \<and> book_id item = b)"

text \<open>A credential record whose username and password are exactly the given strings.\<close>

definition has_credentials :: "string \<Rightarrow> string \<Rightarrow> json \<Rightarrow> bool" where
  "has_credentials username password r =
     (case r of
        JObj kvs \<Rightarrow> map_of kvs ''username'' = Some (JStr username)
                    \<and> map_of kvs ''password'' = Some (JStr password)
      | _ \<Rightarrow> False)"

text \<open>
  The candidate list as the specification words it: the available books, filtered without
  regard to case on the book's name or its author's name, and cut at seven.
\<close>

definition author_name :: "page \<Rightarrow> book \<Rightarrow> string" where
  "author_name st b = (case authorMap st (author_id b) of Some a \<Rightarrow> a | None \<Rightarrow> [])"

definition spec_listAvailableBooks :: "page \<Rightarrow> book list" where
  "spec_listAvailableBooks st =
     take 7
       (filter (\<lambda>b. bookSearchTerm st = []
                     \<or> str_includes (toLowerCase (name b)) (toLowerCase (bookSearchTerm st))
                     \<or> str_includes (toLowerCase (author_name st b))
                                     (toLowerCase (bookSearchTerm st)))
               (filter (\<lambda>b. \<not> has_entry (inventory st) (parseInt (storeId st) (Some 10)) (id_book b))
                       (books st)))"

section \<open>Initial states and the data of the scenarios\<close>

text \<open>\<open>useState(null)\<close> in a browser whose storage is empty.\<close>

definition initial_session :: session where
  "initial_session = \<lparr>user = JNull, localStorage = Map.empty\<rparr>"

text \<open>
  The page as it mounts: every dialog closed, every form field empty. The map of the
  authors is set where a scenario reads it.
\<close>

definition initial_page :: "session \<Rightarrow> string \<Rightarrow> inventory_item list \<Rightarrow> book list \<Rightarrow> page" where
  "initial_page a sid items bs =
     \<lparr>auth = a, storeId = sid, inventory = items, books = bs, authorMap = Map.empty,
      showAddModal = False, showEditModal = False, showDeleteModal = False,
      editingBook = None, editPrice = [], deletingBook = None,
      selectedBookId = [], newPrice = [], bookSearchTerm = []\<rparr>"

text \<open>
  A stand-in for the runtime's JSON codec in the closed examples: it parses the text
  \<open>null\<close> and rejects the rest, and prints a placeholder. The theorems hold for every codec.
\<close>

definition stub_JSON :: js_JSON where
  "stub_JSON = \<lparr>parse = (\<lambda>t. if t = ''null'' then Some JNull else None),
                stringify = (\<lambda>v. ''[object]'')\<rparr>"

text \<open>The directory of the scenario: \<open>admin\<close> with the password \<open>admin123\<close>.\<close>

definition admin_record :: json where
  "admin_record =
     JObj [(''id'', JNum 1), (''username'', JStr ''admin''), (''password'', JStr ''admin123''),
           (''name'', JStr ''Admin User''), (''email'', JStr ''admin@library.com'')]"

text \<open>The session after \<open>admin\<close> has signed in.\<close>

definition admin_session :: session where
  "admin_session =
     \<lparr>user = rest_without ''password'' admin_record,
      localStorage = [''user'' \<mapsto> stringify stub_JSON (rest_without ''password'' admin_record)]\<rparr>"

definition local_env :: env where
  "local_env = \<lparr>VITE_API_MODE = Some ''local'', VITE_MOCK_API_URL = None, VITE_API_URL = None\<rparr>"

definition unset_env :: env where
  "unset_env = \<lparr>VITE_API_MODE = None, VITE_MOCK_API_URL = None, VITE_API_URL = None\<rparr>"

definition mock_env :: env where
  "mock_env = \<lparr>VITE_API_MODE = Some ''mock'', VITE_MOCK_API_URL = None, VITE_API_URL = None\<rparr>"

text \<open>A build whose \<open>.env\<close> file has the line \<open>VITE_API_MODE=\<close> with nothing after it.\<close>

definition empty_mode_env :: env where
  "empty_mode_env = \<lparr>VITE_API_MODE = Some [], VITE_MOCK_API_URL = None, VITE_API_URL = None\<rparr>"

text \<open>A static host that serves the users file and nothing else.\<close>

definition static_host :: network where
  "static_host url =
     (if url = ''/data/users.json'' then Resolved (Response True ''OK'' (Some (JArr [admin_record])))
      else if url = ''/data/stores.json'' then Resolved (Response False ''Not Found'' None)
      else if url = ''/data/settings.json''
      then Resolved (Response True ''OK'' (Some (JObj [(''theme'', JStr ''dark'')])))
      else Rejected)"




text \<open>A session whose stored identity is not JSON.\<close>

definition corrupt_session :: session where
  "corrupt_session = \<lparr>user = JNull, localStorage = [''user'' \<mapsto> ''{oops'']\<rparr>"

definition corrupt_session_p2 :: session where
  "corrupt_session_p2 = \<lparr>user = JNull, localStorage = [''authenticatedUser'' \<mapsto> ''{oops'']\<rparr>"

text \<open>Entries and books of the scenarios.\<close>

definition entry :: "rat \<Rightarrow> rat \<Rightarrow> rat \<Rightarrow> rat \<Rightarrow> inventory_item" where
  "entry i s b p = \<lparr>id_item = Fin i, store_id = Fin s, book_id = Fin b, price = Fin p\<rparr>"

definition dune :: book where
  "dune = \<lparr>id_book = Fin 42, name = ''Dune'', author_id = Fin 7, page_count = Fin 412\<rparr>"

definition emma :: book where
  "emma = \<lparr>id_book = Fin 43, name = ''Emma'', author_id = Fin 8, page_count = Fin 474\<rparr>"

definition authors :: "jsnum \<Rightarrow> string option" where
  "authors = [Fin 7 \<mapsto> ''Frank Herbert'', Fin 8 \<mapsto> ''Jane Austen'']"

section \<open>Evaluation rules\<close>

lemmas parse_simps = parseInt_def parseFloat_def is_space_def is_digit_in_def digit_value_def
  digits_value_def

lemmas page_simps = initial_page_def handleAddBook_def closeAddModal_def handleSaveEdit_def
  handleEditPrice_def closeEditModal_def confirmDelete_def handleDeleteBook_def
  closeDeleteModal_def strict_eq_def entry_def

lemmas lower_simps = toLowerCase_def lower_char_def char_of_def bit_Suc_0_iff trim_def is_space_def

section \<open>The data access gateway\<close>

lemma fetchData_cases:
  "fetchData e net endpoint =
     Inr (case net (request_url e endpoint) of
            Rejected \<Rightarrow> []
          | Resolved r \<Rightarrow>
              if \<not> ok r then []
              else (case json_body r of
                      None \<Rightarrow> []
                    | Some (JArr xs) \<Rightarrow> xs
                    | Some v \<Rightarrow> [v]))"
  by (simp add: fetchData_def fetchData_try_def split: fetch_outcome.split option.split json.split)

lemma request_url_local [simp]:
  "request_url local_env endpoint = ''/data/'' @ endpoint @ ''.json''"
  by (simp add: request_url_def API_MODE_def or_default_def local_env_def)

text \<open>
  Claim C9. For every resource name \<open>fetchData\<close> returns a sequence and no exception
  reaches its caller: a rejected \<open>fetch\<close> and a response whose status is not a success
  give the empty sequence, an array is returned as it is, and a single value that is not
  an array is wrapped in a sequence of one element.
\<close>

theorem fetchData_returns_sequence:
  "(\<exists>xs. fetchData e net endpoint = Inr xs)
   \<and> (net (request_url e endpoint) = Rejected \<longrightarrow> fetchData e net endpoint = Inr [])
   \<and> (\<forall>r. net (request_url e endpoint) = Resolved r \<and> \<not> ok r
          \<longrightarrow> fetchData e net endpoint = Inr [])
   \<and> (\<forall>r xs. net (request_url e endpoint) = Resolved r \<and> ok r \<and> json_body r = Some (JArr xs)
          \<longrightarrow> fetchData e net endpoint = Inr xs)
   \<and> (\<forall>r v. net (request_url e endpoint) = Resolved r \<and> ok r \<and> json_body r = Some v
             \<and> (\<forall>xs. v \<noteq> JArr xs)
          \<longrightarrow> fetchData e net endpoint = Inr [v])"
  by (auto simp add: fetchData_cases split: json.split)

text \<open>
  The static host rejects \<open>books\<close>, answers \<open>stores\<close> with a failure status, serves the
  array of \<open>users\<close> and the single object of \<open>settings\<close>.
\<close>

theorem fetchData_returns_sequence_witness:
  "static_host (request_url local_env ''books'') = Rejected
   \<and> fetchData local_env static_host ''books'' = Inr []
   \<and> static_host (request_url local_env ''stores'') = Resolved (Response False ''Not Found'' None)
   \<and> fetchData local_env static_host ''stores'' = Inr []
   \<and> static_host (request_url local_env ''users'')
       = Resolved (Response True ''OK'' (Some (JArr [admin_record])))
   \<and> fetchData local_env static_host ''users'' = Inr [admin_record]
   \<and> static_host (request_url local_env ''settings'')
       = Resolved (Response True ''OK'' (Some (JObj [(''theme'', JStr ''dark'')])))
   \<and> fetchData local_env static_host ''settings'' = Inr [JObj [(''theme'', JStr ''dark'')]]"
  using fetchData_returns_sequence [of local_env static_host "''books''"]
        fetchData_returns_sequence [of local_env static_host "''stores''"]
        fetchData_returns_sequence [of local_env static_host "''users''"]
        fetchData_returns_sequence [of local_env static_host "''settings''"]
  by (simp add: static_host_def)

text \<open>
  Claim C10, as the code has it. The dispatch of \<open>fetchData\<close> covers every mode: \<open>api\<close>
  requests the resource under the backend base URL, \<open>mock\<close> under the mock server's base
  URL, and every other mode, \<open>local\<close> or not recognised, requests the static file
  \<open>/data/<resource>.json\<close>. A non-empty value of the variable is the mode; with the
  variable unset or empty the mode is \<open>api\<close>. The network is asked for that URL only.
\<close>

theorem mode_dispatch:
  "(VITE_API_MODE e = None \<longrightarrow> API_MODE e = ''api'')
   \<and> (VITE_API_MODE e = Some [] \<longrightarrow> API_MODE e = ''api'')
   \<and> (\<forall>m. VITE_API_MODE e = Some m \<and> m \<noteq> [] \<longrightarrow> API_MODE e = m)
   \<and> (API_MODE e = ''api'' \<longrightarrow> request_url e endpoint = BACKEND_API_URL e @ ''/'' @ endpoint)
   \<and> (API_MODE e = ''mock'' \<longrightarrow> request_url e endpoint = MOCK_API_URL e @ ''/'' @ endpoint)
   \<and> (API_MODE e \<noteq> ''api'' \<and> API_MODE e \<noteq> ''mock''
        \<longrightarrow> request_url e endpoint = ''/data/'' @ endpoint @ ''.json'')
   \<and> fetchData e net endpoint = fetchData e (\<lambda>url. net (request_url e endpoint)) endpoint"
  by (auto simp add: API_MODE_def or_default_def request_url_def fetchData_def fetchData_try_def)

theorem mode_dispatch_witness:
  "VITE_API_MODE unset_env = None
   \<and> API_MODE unset_env = ''api''
   \<and> request_url unset_env ''books'' = ''https://your-backend-api.com/api/books''
   \<and> VITE_API_MODE empty_mode_env = Some []
   \<and> API_MODE empty_mode_env = ''api''
   \<and> VITE_API_MODE mock_env = Some ''mock''
   \<and> API_MODE mock_env = ''mock''
   \<and> request_url mock_env ''books'' = ''http://localhost:3001/books''
   \<and> VITE_API_MODE local_env = Some ''local''
   \<and> API_MODE local_env = ''local''
   \<and> request_url local_env ''books'' = ''/data/books.json''"
  using mode_dispatch [of unset_env "''books''"] mode_dispatch [of mock_env "''books''"]
        mode_dispatch [of local_env "''books''"] mode_dispatch [of empty_mode_env "''books''"]
  by (simp add: unset_env_def mock_env_def local_env_def empty_mode_env_def API_MODE_def
      or_default_def BACKEND_API_URL_def MOCK_API_URL_def)

text \<open>
  Claim C10 as stated fails for one configured value that is neither \<open>api\<close> nor \<open>mock\<close>:
  the empty string is falsy, takes the default, and the request goes to the backend, not
  to the static file.
\<close>

theorem empty_mode_counterexample:
  "VITE_API_MODE empty_mode_env = Some []
   \<and> request_url empty_mode_env ''books'' = ''https://your-backend-api.com/api/books''
   \<and> request_url empty_mode_env ''books'' \<noteq> ''/data/books.json''"
  by (simp add: empty_mode_env_def request_url_def API_MODE_def or_default_def BACKEND_API_URL_def)

section \<open>The session store\<close>

lemma credentials_match_not_null:
  "u \<noteq> JNull \<Longrightarrow> credentials_match username password u = Inr (has_credentials username password u)"
  by (cases u) (auto simp add: credentials_match_def has_credentials_def)

lemma js_find_total:
  "\<forall>x \<in> set xs. p x = Inr (q x) \<Longrightarrow> js_find p xs = Inr (List.find q xs)"
  by (induction xs) auto

lemma js_find_credentials:
  "JNull \<notin> set users \<Longrightarrow>
     js_find (credentials_match username password) users
       = Inr (List.find (has_credentials username password) users)"
proof -
  assume "JNull \<notin> set users"
  then have "\<forall>x \<in> set users. x \<noteq> JNull" by auto
  then show ?thesis
    by (intro js_find_total ballI credentials_match_not_null) simp
qed

lemma has_credentials_object:
  "has_credentials username password r \<Longrightarrow> \<exists>kvs. r = JObj kvs"
  by (cases r) (simp_all add: has_credentials_def)

lemma find_credentials_cases:
  "(List.find (has_credentials username password) users = None
      \<and> \<not> (\<exists>r \<in> set users. has_credentials username password r))
   \<or> (\<exists>kvs. List.find (has_credentials username password) users = Some (JObj kvs)
         \<and> (\<exists>r \<in> set users. has_credentials username password r))"
proof (cases "List.find (has_credentials username password) users")
  case None
  then show ?thesis by (simp add: find_None_iff)
next
  case (Some r)
  then have r: "r \<in> set users" "has_credentials username password r"
    by (auto simp add: find_Some_iff)
  then obtain kvs where "r = JObj kvs" using has_credentials_object by blast
  then show ?thesis using Some r by blast
qed

lemma login_no_match:
  assumes "fetchData e net ''users'' = Inr users" and "JNull \<notin> set users"
    and "List.find (has_credentials username password) users = None"
  shows "login J e net s username password = (False, s)"
  using assms by (simp add: login_def js_find_credentials)

lemma login_match:
  assumes "fetchData e net ''users'' = Inr users" and "JNull \<notin> set users"
    and "List.find (has_credentials username password) users = Some (JObj kvs)"
  shows "login J e net s username password =
           (True, s\<lparr>user := JObj (filter (\<lambda>kv. fst kv \<noteq> ''password'') kvs),
                     localStorage := (localStorage s)
                       (''user'' \<mapsto> stringify J (JObj (filter (\<lambda>kv. fst kv \<noteq> ''password'') kvs)))\<rparr>)"
  using assms by (simp add: login_def js_find_credentials Let_def)






text \<open>
  After a successful \<open>login\<close> the session is authenticated, and with a codec that reads
  back what it prints, restoring at the next start finds the same identity. \<open>logout\<close> ends
  both.
\<close>

lemma login_success:
  assumes "fetchData e net ''users'' = Inr users" and "JNull \<notin> set users"
    and "fst (login J e net s username password)"
  shows "\<exists>kvs. login J e net s username password =
           (True, s\<lparr>user := JObj (filter (\<lambda>kv. fst kv \<noteq> ''password'') kvs),
                     localStorage := (localStorage s)
                       (''user'' \<mapsto> stringify J (JObj (filter (\<lambda>kv. fst kv \<noteq> ''password'') kvs)))\<rparr>)"
  using find_credentials_cases [of username password users] assms(3)
        login_no_match [OF assms(1,2), of username password J s]
        login_match [OF assms(1,2), of username password _ J s]
  by auto

lemma login_success_authenticates:
  assumes "fetchData e net ''users'' = Inr users" and "JNull \<notin> set users"
    and "fst (login J e net s username password)"
  shows "isAuthenticated (snd (login J e net s username password))"
  using login_success [OF assms] by (auto simp add: isAuthenticated_def)

lemma restore_after_login:
  assumes "fetchData e net ''users'' = Inr users" and "JNull \<notin> set users"
    and "fst (login J e net s username password)"
    and "\<And>v. stringify J v \<noteq> [] \<and> parse J (stringify J v) = Some v"
  shows "restore J (snd (login J e net s username password))
           = (None, snd (login J e net s username password))"
  using login_success [OF assms(1-3)] assms(4) by (auto simp add: restore_def)

lemma logout_clears:
  "\<not> isAuthenticated (logout s) \<and> localStorage (logout s) ''user'' = None"
  by (simp add: logout_def isAuthenticated_def)

lemma restore_after_logout: "restore J (logout s) = (None, logout s)"
  by (simp add: restore_def logout_def)

text \<open>
  The four fields of the provider of \<open>unnamed/part_002\<close> are, for a record of the
  directory's usual shape, the record without its password.
\<close>

lemma pick_fields_admin:
  "pick_fields [''id'', ''username'', ''name'', ''email''] admin_record
     = rest_without ''password'' admin_record"
  by (simp add: pick_fields_def admin_record_def List.map_filter_def)

subsection \<open>Restoring the session\<close>

lemma restore_installs:
  "localStorage s ''user'' = Some t \<Longrightarrow> t \<noteq> [] \<Longrightarrow> parse J t = Some v
     \<Longrightarrow> restore J s = (None, s\<lparr>user := v\<rparr>)"
  by (simp add: restore_def)

lemma restore_corrupt:
  "localStorage s ''user'' = Some t \<Longrightarrow> t \<noteq> [] \<Longrightarrow> parse J t = None
     \<Longrightarrow> restore J s = (Some SyntaxError, s)"
  by (simp add: restore_def)

text \<open>
  Claim C6, at the input where the provider of \<open>src/contexts/AuthProvider.jsx\<close> departs
  from it: the stored text \<open>{oops\<close> is not JSON, the effect lets the \<open>SyntaxError\<close> out
  instead of continuing without an identity, and the stored text stays where it was.
\<close>

theorem restore_keeps_corrupt_value:
  "parse stub_JSON ''{oops'' = None
   \<and> restore stub_JSON corrupt_session = (Some SyntaxError, corrupt_session)
   \<and> localStorage corrupt_session ''user'' = Some ''{oops''"
  by (simp add: restore_def corrupt_session_def stub_JSON_def)

text \<open>
  The provider of \<open>unnamed/part_002\<close> does what the claim says: it installs what parses,
  never lets an exception out, and on a parse error removes the stored text and stays
  without an identity.
\<close>

lemma restore_p2_installs:
  "localStorage s ''authenticatedUser'' = Some t \<Longrightarrow> t \<noteq> [] \<Longrightarrow> parse J t = Some v
     \<Longrightarrow> restore_p2 J s = (None, s\<lparr>user := v\<rparr>)"
  by (simp add: restore_p2_def)

lemma restore_p2_fails_open:
  "localStorage s ''authenticatedUser'' = Some t \<Longrightarrow> t \<noteq> [] \<Longrightarrow> parse J t = None
     \<Longrightarrow> restore_p2 J s
           = (None, s\<lparr>localStorage := (localStorage s)(''authenticatedUser'' := None)\<rparr>)"
  by (simp add: restore_p2_def)

lemma restore_p2_never_throws: "fst (restore_p2 J s) = None"
  by (simp add: restore_p2_def split: option.split)

lemma restore_p2_clears_corrupt_value:
  "fst (restore_p2 stub_JSON corrupt_session_p2) = None
   \<and> user (snd (restore_p2 stub_JSON corrupt_session_p2)) = JNull
   \<and> localStorage (snd (restore_p2 stub_JSON corrupt_session_p2)) ''authenticatedUser'' = None"
  by (simp add: restore_p2_def corrupt_session_p2_def stub_JSON_def)

section \<open>The inventory page\<close>

subsection \<open>What the handlers compute\<close>

lemma handleAddBook_new_id:
  "selectedBookId st \<noteq> [] \<Longrightarrow> newPrice st \<noteq> [] \<Longrightarrow>
     inventory (handleAddBook st)
       = inventory st @ [\<lparr>id_item = Fin (of_nat (length (inventory st)) + 1),
                           store_id = parseInt (storeId st) None,
                           book_id = parseInt (selectedBookId st) None,
                           price = parseFloat (newPrice st)\<rparr>]"
  by (simp add: handleAddBook_def closeAddModal_def)

lemma handleAddBook_idle:
  "selectedBookId st = [] \<or> newPrice st = [] \<Longrightarrow> handleAddBook st = st"
  by (auto simp add: handleAddBook_def)

lemma handleAddBook_twice: "handleAddBook (handleAddBook st) = handleAddBook st"
proof (cases "selectedBookId st \<noteq> [] \<and> newPrice st \<noteq> []")
  case True
  then have "selectedBookId (handleAddBook st) = []"
    by (simp add: handleAddBook_def closeAddModal_def)
  then show ?thesis by (simp add: handleAddBook_idle)
next
  case False
  then have "handleAddBook st = st" by (auto simp add: handleAddBook_idle)
  then show ?thesis by simp
qed

lemma handleAddBook_keeps_route:
  "storeId (handleAddBook st) = storeId st \<and> books (handleAddBook st) = books st"
  by (simp add: handleAddBook_def closeAddModal_def Let_def)

lemma availableBooks_iff:
  "b \<in> set (availableBooks st) \<longleftrightarrow>
     b \<in> set (books st)
     \<and> \<not> (\<exists>item \<in> set (inventory st).
             strict_eq (store_id item) (parseInt (storeId st) (Some 10))
             \<and> book_id item = id_book b)"
  by (force simp add: availableBooks_def array_includes_def image_iff)

lemma added_book_not_available:
  assumes sel: "selectedBookId st \<noteq> []" "newPrice st \<noteq> []"
    and sid: "parseInt (storeId st) None = parseInt (storeId st) (Some 10)"
             "parseInt (storeId st) (Some 10) \<noteq> NaN"
    and b: "b \<in> set (availableBooks (handleAddBook st))"
  shows "id_book b \<noteq> parseInt (selectedBookId st) None"
proof
  assume eq: "id_book b = parseInt (selectedBookId st) None"
  let ?new = "\<lparr>id_item = Fin (of_nat (length (inventory st)) + 1),
               store_id = parseInt (storeId st) None,
               book_id = parseInt (selectedBookId st) None,
               price = parseFloat (newPrice st)\<rparr>"
  have "?new \<in> set (inventory (handleAddBook st))"
    using sel by (simp add: handleAddBook_new_id)
  moreover have "strict_eq (store_id ?new) (parseInt (storeId (handleAddBook st)) (Some 10))"
    using sid by (simp add: strict_eq_def handleAddBook_keeps_route)
  moreover have "book_id ?new = id_book b" using eq by simp
  ultimately show False
    using b unfolding availableBooks_iff by blast
qed

lemma pair_fresh:
  assumes sid: "parseInt (storeId st) (Some 10) \<noteq> NaN"
    and b: "b \<in> set (availableBooks st)"
  shows "(parseInt (storeId st) (Some 10), id_book b)
           \<notin> set (map (\<lambda>item. (store_id item, book_id item)) (inventory st))"
proof
  assume "(parseInt (storeId st) (Some 10), id_book b)
            \<in> set (map (\<lambda>item. (store_id item, book_id item)) (inventory st))"
  then obtain item where item: "item \<in> set (inventory st)"
      "store_id item = parseInt (storeId st) (Some 10)" "book_id item = id_book b"
    by auto
  then have "strict_eq (store_id item) (parseInt (storeId st) (Some 10))"
    using sid by (simp add: strict_eq_def)
  with item b show False unfolding availableBooks_iff by blast
qed

lemma handleEditPrice_pairs:
  "map (\<lambda>item. (store_id item, book_id item)) (inventory (handleEditPrice st b p))
     = map (\<lambda>item. (store_id item, book_id item)) (inventory st)"
  by (simp add: handleEditPrice_def comp_def)

lemma handleSaveEdit_pairs:
  "map (\<lambda>item. (store_id item, book_id item)) (inventory (handleSaveEdit st))
     = map (\<lambda>item. (store_id item, book_id item)) (inventory st)"
  by (simp add: handleSaveEdit_def closeEditModal_def handleEditPrice_pairs split: option.split)

lemma handleDeleteBook_pairs:
  "\<exists>P. map (\<lambda>item. (store_id item, book_id item)) (inventory (handleDeleteBook st b))
     = filter P (map (\<lambda>item. (store_id item, book_id item)) (inventory st))"
  by (rule exI [where x = "\<lambda>pr. \<not> (strict_eq (fst pr) (parseInt (storeId st) (Some 10))
                                     \<and> strict_eq (snd pr) b)"])
     (simp add: handleDeleteBook_def closeDeleteModal_def filter_map comp_def)

lemma handleDeleteBook_unique:
  "one_entry_per_pair (inventory st) \<Longrightarrow> one_entry_per_pair (inventory (handleDeleteBook st b))"
  using handleDeleteBook_pairs [of st b] by (auto simp add: one_entry_per_pair_def)

lemma confirmDelete_unique:
  "one_entry_per_pair (inventory st) \<Longrightarrow> one_entry_per_pair (inventory (confirmDelete st))"
  by (simp add: confirmDelete_def handleDeleteBook_unique split: option.split)

lemma handleAddBook_unique:
  assumes inv: "one_entry_per_pair (inventory st)"
    and sid: "parseInt (storeId st) None = parseInt (storeId st) (Some 10)"
             "parseInt (storeId st) (Some 10) \<noteq> NaN"
    and b: "b \<in> set (availableBooks st)" "id_book b = parseInt (selectedBookId st) None"
  shows "one_entry_per_pair (inventory (handleAddBook st))"
proof (cases "selectedBookId st \<noteq> [] \<and> newPrice st \<noteq> []")
  case True
  have "(parseInt (storeId st) None, parseInt (selectedBookId st) None)
          \<notin> set (map (\<lambda>item. (store_id item, book_id item)) (inventory st))"
    using pair_fresh [OF sid(2) b(1)] sid(1) b(2) by simp
  then show ?thesis
    using True inv by (simp add: handleAddBook_new_id one_entry_per_pair_def)
next
  case False
  then have "handleAddBook st = st" by (auto simp add: handleAddBook_idle)
  then show ?thesis using inv by simp
qed

subsection \<open>Mutations and the session\<close>

text \<open>
  What the page does with the session: without an identity the table has no \<open>Actions\<close>
  column, so the controls that edit and delete are absent, and with one it has. The
  handlers themselves never read the session: each computes the same collection
  whatever the session holds.
\<close>

lemma handlers_ignore_session:
  "(\<not> isAuthenticated (auth st) \<longrightarrow> ''Actions'' \<notin> set (columns st))
   \<and> (isAuthenticated (auth st) \<longrightarrow> ''Actions'' \<in> set (columns st))
   \<and> inventory (handleAddBook (st\<lparr>auth := a\<rparr>)) = inventory (handleAddBook st)
   \<and> inventory (handleSaveEdit (st\<lparr>auth := a\<rparr>)) = inventory (handleSaveEdit st)
   \<and> inventory (confirmDelete (st\<lparr>auth := a\<rparr>)) = inventory (confirmDelete st)"
  by (simp add: columns_def handleAddBook_def closeAddModal_def handleSaveEdit_def
      handleEditPrice_def closeEditModal_def confirmDelete_def handleDeleteBook_def
      closeDeleteModal_def Let_def split: option.split)

lemma columns_example:
  "\<not> isAuthenticated (auth (initial_page initial_session ''5'' [] [dune]))
   \<and> ''Actions'' \<notin> set (columns (initial_page initial_session ''5'' [] [dune]))
   \<and> isAuthenticated (auth (initial_page admin_session ''5'' [] [dune]))
   \<and> ''Actions'' \<in> set (columns (initial_page admin_session ''5'' [] [dune]))"
  by (simp add: columns_def isAuthenticated_def initial_session_def initial_page_def
      admin_session_def admin_record_def)


subsection \<open>The identifier of a new entry\<close>

text \<open>
  Claim C3, at the input where \<open>handleAddBook\<close> departs from it. The store holds the
  entries 1 and 2; the first is deleted and its book is added again. The new entry gets the
  identifier \<open>inventory.length + 1 = 2\<close>, which the remaining entry already has.
\<close>

theorem new_id_repeats_after_delete:
  "map id_item (inventory (handleAddBook ((confirmDelete
       ((initial_page admin_session ''5'' [entry 1 5 42 10, entry 2 5 43 12] [dune, emma])
          \<lparr>deletingBook := Some \<lparr>id_row = Fin 42, price_row = Fin 10\<rparr>\<rparr>))
          \<lparr>selectedBookId := ''42'', newPrice := ''9.5''\<rparr>)))
     = [Fin 2, Fin 2]"
  by (simp add: page_simps parse_simps)

text \<open>In an empty collection the new entry is numbered 1.\<close>

lemma first_id_is_one:
  "selectedBookId st \<noteq> [] \<Longrightarrow> newPrice st \<noteq> [] \<Longrightarrow> inventory st = []
     \<Longrightarrow> map id_item (inventory (handleAddBook st)) = [Fin 1]"
  by (simp add: handleAddBook_new_id)

subsection \<open>Duplicates\<close>

text \<open>
  Claim C4, as the code has it. \<open>handleAddBook\<close> has no \<open>DuplicateEntry\<close> outcome: with
  a book and a price selected it appends one entry, whatever the collection holds.
  Duplicates are kept out before it runs: the handler clears the selection, so running
  it again at once changes nothing more, and (for a store id that reads the same with and
  without radix 10) the book just added is no longer among \<open>availableBooks\<close>, the only
  books the dialog offers.
\<close>

theorem handleAddBook_no_duplicate_check:
  "handleAddBook (handleAddBook st) = handleAddBook st
   \<and> (selectedBookId st \<noteq> [] \<and> newPrice st \<noteq> []
        \<longrightarrow> length (inventory (handleAddBook st)) = Suc (length (inventory st)))
   \<and> (selectedBookId st \<noteq> [] \<and> newPrice st \<noteq> []
        \<and> parseInt (storeId st) None = parseInt (storeId st) (Some 10)
        \<and> parseInt (storeId st) (Some 10) \<noteq> NaN
        \<and> b \<in> set (availableBooks (handleAddBook st))
        \<longrightarrow> id_book b \<noteq> parseInt (selectedBookId st) None)"
  using added_book_not_available [of st b]
  by (simp add: handleAddBook_twice handleAddBook_new_id)

theorem handleAddBook_no_duplicate_check_witness:
  "selectedBookId ((initial_page admin_session ''5'' [] [dune, emma])
       \<lparr>selectedBookId := ''42'', newPrice := ''19.99''\<rparr>) \<noteq> []
   \<and> newPrice ((initial_page admin_session ''5'' [] [dune, emma])
       \<lparr>selectedBookId := ''42'', newPrice := ''19.99''\<rparr>) \<noteq> []
   \<and> parseInt ''5'' None = parseInt ''5'' (Some 10)
   \<and> parseInt ''5'' (Some 10) \<noteq> NaN
   \<and> emma \<in> set (availableBooks (handleAddBook ((initial_page admin_session ''5'' [] [dune, emma])
       \<lparr>selectedBookId := ''42'', newPrice := ''19.99''\<rparr>)))
   \<and> id_book emma \<noteq> parseInt ''42'' None
   \<and> length (inventory (handleAddBook ((initial_page admin_session ''5'' [] [dune, emma])
       \<lparr>selectedBookId := ''42'', newPrice := ''19.99''\<rparr>))) = Suc 0"
  using handleAddBook_no_duplicate_check
    [of "(initial_page admin_session ''5'' [] [dune, emma])
           \<lparr>selectedBookId := ''42'', newPrice := ''19.99''\<rparr>" emma]
  by (simp add: page_simps parse_simps availableBooks_def array_includes_def dune_def emma_def)

text \<open>
  Claim C4 as stated fails: store 5 is empty, book 42 is added at 19.99, and a second add
  of book 42 at 5.00 is not rejected; the collection then holds two entries for the pair.
\<close>

theorem second_add_counterexample:
  "inventory (handleAddBook ((handleAddBook ((initial_page admin_session ''5'' [] [dune])
        \<lparr>selectedBookId := ''42'', newPrice := ''19.99''\<rparr>))
        \<lparr>selectedBookId := ''42'', newPrice := ''5.00''\<rparr>))
     = [entry 1 5 42 (1999 / 100), entry 2 5 42 5]"
  by (simp add: page_simps parse_simps)

text \<open>
  Claim C5, as the code has it. Editing a price and deleting keep at most one entry for
  each pair of a store and a book, whatever their arguments. Adding keeps it when the
  selected book is one of \<open>availableBooks\<close> and the store id reads the same number with
  and without radix 10; the handler itself does not check.
\<close>

theorem operations_keep_one_entry_per_pair:
  assumes "one_entry_per_pair (inventory st)"
  shows "one_entry_per_pair (inventory (handleEditPrice st bookId p))
       \<and> one_entry_per_pair (inventory (handleSaveEdit st))
       \<and> one_entry_per_pair (inventory (handleDeleteBook st bookId))
       \<and> one_entry_per_pair (inventory (confirmDelete st))
       \<and> (parseInt (storeId st) None = parseInt (storeId st) (Some 10)
            \<and> parseInt (storeId st) (Some 10) \<noteq> NaN
            \<and> b \<in> set (availableBooks st)
            \<and> id_book b = parseInt (selectedBookId st) None
            \<longrightarrow> one_entry_per_pair (inventory (handleAddBook st)))"
proof -
  have "one_entry_per_pair (inventory (handleEditPrice st bookId p))"
    using assms by (simp add: one_entry_per_pair_def handleEditPrice_pairs)
  moreover have "one_entry_per_pair (inventory (handleSaveEdit st))"
    using assms by (simp add: one_entry_per_pair_def handleSaveEdit_pairs)
  moreover note handleDeleteBook_unique [OF assms, of bookId] confirmDelete_unique [OF assms]
  moreover have "parseInt (storeId st) None = parseInt (storeId st) (Some 10)
            \<and> parseInt (storeId st) (Some 10) \<noteq> NaN
            \<and> b \<in> set (availableBooks st)
            \<and> id_book b = parseInt (selectedBookId st) None
            \<longrightarrow> one_entry_per_pair (inventory (handleAddBook st))"
    using handleAddBook_unique [OF assms, of b] by blast
  ultimately show ?thesis by blast
qed

theorem operations_keep_one_entry_per_pair_witness:
  "one_entry_per_pair (inventory ((initial_page admin_session ''5'' [entry 1 5 43 12] [dune, emma])
       \<lparr>selectedBookId := ''42'', newPrice := ''19.99''\<rparr>))
   \<and> parseInt ''5'' None = parseInt ''5'' (Some 10)
   \<and> parseInt ''5'' (Some 10) \<noteq> NaN
   \<and> dune \<in> set (availableBooks ((initial_page admin_session ''5'' [entry 1 5 43 12] [dune, emma])
       \<lparr>selectedBookId := ''42'', newPrice := ''19.99''\<rparr>))
   \<and> id_book dune = parseInt ''42'' None
   \<and> one_entry_per_pair (inventory (handleAddBook
        ((initial_page admin_session ''5'' [entry 1 5 43 12] [dune, emma])
           \<lparr>selectedBookId := ''42'', newPrice := ''19.99''\<rparr>)))"
proof -
  let ?st = "(initial_page admin_session ''5'' [entry 1 5 43 12] [dune, emma])
               \<lparr>selectedBookId := ''42'', newPrice := ''19.99''\<rparr>"
  have inv: "one_entry_per_pair (inventory ?st)"
    by (simp add: one_entry_per_pair_def initial_page_def entry_def)
  have sid: "parseInt ''5'' None = parseInt ''5'' (Some 10)" "parseInt ''5'' (Some 10) \<noteq> NaN"
    by (simp_all add: parse_simps)
  have b: "dune \<in> set (availableBooks ?st)" "id_book dune = parseInt ''42'' None"
    by (simp_all add: availableBooks_def array_includes_def page_simps parse_simps dune_def emma_def)
  show ?thesis
    using operations_keep_one_entry_per_pair [OF inv, of _ _ dune] inv sid b
    by (simp add: initial_page_def)
qed

text \<open>
  Claim C5 as stated fails: store 3 stocks book 43 once, the handler runs with book 43
  selected, and the collection then holds two entries for the pair.
\<close>

theorem stocked_book_added_again_counterexample:
  "one_entry_per_pair (inventory ((initial_page admin_session ''3'' [entry 1 3 43 12] [dune, emma])
       \<lparr>selectedBookId := ''43'', newPrice := ''8''\<rparr>))
   \<and> \<not> one_entry_per_pair (inventory (handleAddBook
        ((initial_page admin_session ''3'' [entry 1 3 43 12] [dune, emma])
           \<lparr>selectedBookId := ''43'', newPrice := ''8''\<rparr>)))"
  by (simp add: one_entry_per_pair_def page_simps parse_simps)

subsection \<open>Prices\<close>

text \<open>
  Claim C7, as the code has it. Adding and editing have no \<open>InvalidPrice\<close> outcome. They
  leave everything as it is only when the price field is empty; any other text is read
  with \<open>parseFloat\<close> and stored as the price, with no test of its sign or finiteness.
\<close>

theorem price_is_stored_unchecked:
  "(newPrice st = [] \<longrightarrow> handleAddBook st = st)
   \<and> (editPrice st = [] \<longrightarrow> handleSaveEdit st = st)
   \<and> (selectedBookId st \<noteq> [] \<and> newPrice st \<noteq> []
        \<longrightarrow> inventory (handleAddBook st)
              = inventory st @ [\<lparr>id_item = Fin (of_nat (length (inventory st)) + 1),
                                  store_id = parseInt (storeId st) None,
                                  book_id = parseInt (selectedBookId st) None,
                                  price = parseFloat (newPrice st)\<rparr>])
   \<and> (editingBook st = Some row \<and> editPrice st \<noteq> []
        \<longrightarrow> inventory (handleSaveEdit st)
              = map (\<lambda>item. if strict_eq (store_id item) (parseInt (storeId st) (Some 10))
                                 \<and> strict_eq (book_id item) (id_row row)
                              then item\<lparr>price := parseFloat (editPrice st)\<rparr> else item)
                    (inventory st))"
  by (simp add: handleAddBook_idle handleAddBook_new_id handleSaveEdit_def handleEditPrice_def
      closeEditModal_def split: option.split)

theorem price_is_stored_unchecked_witness:
  "newPrice (initial_page admin_session ''5'' [] [dune]) = []
   \<and> handleAddBook (initial_page admin_session ''5'' [] [dune])
       = initial_page admin_session ''5'' [] [dune]
   \<and> editPrice (initial_page admin_session ''5'' [] [dune]) = []
   \<and> handleSaveEdit (initial_page admin_session ''5'' [] [dune])
       = initial_page admin_session ''5'' [] [dune]
   \<and> inventory (handleAddBook ((initial_page admin_session ''5'' [] [dune])
        \<lparr>selectedBookId := ''42'', newPrice := ''19.99''\<rparr>))
       = [entry 1 5 42 (1999 / 100)]
   \<and> inventory (handleSaveEdit ((initial_page admin_session ''5'' [entry 1 5 42 (1999 / 100)] [dune])
        \<lparr>editingBook := Some \<lparr>id_row = Fin 42, price_row = Fin (1999 / 100)\<rparr>,
          editPrice := ''24.99''\<rparr>))
       = [entry 1 5 42 (2499 / 100)]"
  using price_is_stored_unchecked [of "initial_page admin_session ''5'' [] [dune]"]
        price_is_stored_unchecked [of "(initial_page admin_session ''5'' [] [dune])
          \<lparr>selectedBookId := ''42'', newPrice := ''19.99''\<rparr>"]
        price_is_stored_unchecked [of "(initial_page admin_session ''5'' [entry 1 5 42 (1999 / 100)] [dune])
          \<lparr>editingBook := Some \<lparr>id_row = Fin 42, price_row = Fin (1999 / 100)\<rparr>,
            editPrice := ''24.99''\<rparr>" "\<lparr>id_row = Fin 42, price_row = Fin (1999 / 100)\<rparr>"]
  by (simp add: initial_page_def entry_def parse_simps strict_eq_def)

text \<open>
  Claim C7 as stated fails: the price texts \<open>-5\<close> and \<open>-0.01\<close> are not rejected; the
  collection changes and holds the negative price.
\<close>

theorem negative_price_counterexample:
  "inventory (handleAddBook ((initial_page admin_session ''5'' [] [dune])
        \<lparr>selectedBookId := ''42'', newPrice := ''-5''\<rparr>))
     = [entry 1 5 42 (- 5)]
   \<and> inventory (handleSaveEdit ((initial_page admin_session ''5'' [entry 1 5 42 (1999 / 100)] [dune])
        \<lparr>editingBook := Some \<lparr>id_row = Fin 42, price_row = Fin (1999 / 100)\<rparr>,
          editPrice := ''-0.01''\<rparr>))
     = [entry 1 5 42 (- 1 / 100)]"
  by (simp add: page_simps parse_simps)

subsection \<open>The books offered by the add dialog\<close>

lemma str_includes_sublist: "str_includes hay needle \<longleftrightarrow> sublist needle hay"
  by (induction hay) (simp_all add: sublist_Cons_right)

lemma availableBooks_has_entry:
  assumes "parseInt (storeId st) (Some 10) = Fin s"
  shows "availableBooks st
           = filter (\<lambda>b. \<not> has_entry (inventory st) (Fin s) (id_book b)) (books st)"
proof -
  have "array_includes
          (map book_id (filter (\<lambda>item. strict_eq (store_id item) (Fin s)) (inventory st))) x
        \<longleftrightarrow> has_entry (inventory st) (Fin s) x" for x
    by (auto simp add: array_includes_def has_entry_def strict_eq_def)
  then show ?thesis using assms by (simp add: availableBooks_def)
qed

lemma filteredAvailableBooks_eq:
  "filteredAvailableBooks st
     = take 7 (filter (\<lambda>b. trim (bookSearchTerm st) = []
                            \<or> sublist (toLowerCase (bookSearchTerm st)) (toLowerCase (name b)))
                      (availableBooks st))"
  by (simp add: filteredAvailableBooks_def str_includes_sublist)

lemma availableBooks_subseq: "subseq (availableBooks st) (books st)"
  by (simp add: availableBooks_def)

lemma subseq_take_filter: "subseq (take n (filter P xs)) xs"
proof -
  have "subseq (take n (filter P xs)) (filter P xs)"
    by (metis append_take_drop_id list_emb_append2 subseq_order.order_refl prefix_def prefix_imp_subseq)
  then show ?thesis using subseq_filter_left subseq_order.order_trans by blast
qed

text \<open>
  What the page's two lists are. For a route whose store id is a number, \<open>availableBooks\<close>
  is exactly the catalog without the books that have an entry for that store, in catalog
  order. \<open>filteredAvailableBooks\<close> keeps of them, when the search term is not blank, those
  whose name contains the term without regard to case, and returns the first seven at
  most, still in catalog order.
\<close>

lemma candidates_filtered_by_title:
  assumes "parseInt (storeId st) (Some 10) = Fin s"
  shows "availableBooks st
           = filter (\<lambda>b. \<not> has_entry (inventory st) (Fin s) (id_book b)) (books st)
       \<and> filteredAvailableBooks st
           = take 7 (filter (\<lambda>b. trim (bookSearchTerm st) = []
                                  \<or> sublist (toLowerCase (bookSearchTerm st)) (toLowerCase (name b)))
                            (availableBooks st))
       \<and> length (filteredAvailableBooks st) \<le> 7
       \<and> subseq (filteredAvailableBooks st) (books st)"
proof -
  have "subseq (filteredAvailableBooks st) (availableBooks st)"
    unfolding filteredAvailableBooks_eq by (rule subseq_take_filter)
  then have "subseq (filteredAvailableBooks st) (books st)"
    using availableBooks_subseq subseq_order.order_trans by blast
  moreover have "length (filteredAvailableBooks st) \<le> 7"
    by (simp add: filteredAvailableBooks_eq)
  ultimately show ?thesis
    using availableBooks_has_entry [OF assms] filteredAvailableBooks_eq by simp
qed

lemma candidates_filtered_by_title_example:
  "parseInt ''5'' (Some 10) = Fin 5
   \<and> availableBooks ((initial_page admin_session ''5'' [entry 1 5 42 10] [dune, emma])
        \<lparr>bookSearchTerm := ''EM''\<rparr>) = [emma]
   \<and> filteredAvailableBooks ((initial_page admin_session ''5'' [entry 1 5 42 10] [dune, emma])
        \<lparr>bookSearchTerm := ''EM''\<rparr>) = [emma]"
proof -
  have sid: "parseInt (storeId ((initial_page admin_session ''5'' [entry 1 5 42 10] [dune, emma])
        \<lparr>bookSearchTerm := ''EM''\<rparr>)) (Some 10) = Fin 5"
    by (simp add: initial_page_def parse_simps)
  show ?thesis
    using candidates_filtered_by_title [OF sid] sid
    by (simp add: initial_page_def has_entry_def entry_def dune_def emma_def lower_simps
        str_includes_sublist [symmetric])
qed

text \<open>
  Claim C8, at the input where \<open>filteredAvailableBooks\<close> departs from it. The term
  \<open>herbert\<close> matches the author of \<open>Dune\<close> and no title: the list worded by the
  specification, which also searches the author's name, holds \<open>Dune\<close>, and the page's
  list, which searches the name of the book only, is empty.
\<close>

theorem author_search_not_matched:
  "filteredAvailableBooks ((initial_page admin_session ''5'' [] [dune, emma])
       \<lparr>authorMap := authors, bookSearchTerm := ''herbert''\<rparr>) = []
   \<and> spec_listAvailableBooks ((initial_page admin_session ''5'' [] [dune, emma])
       \<lparr>authorMap := authors, bookSearchTerm := ''herbert''\<rparr>) = [dune]"
  by (simp add: filteredAvailableBooks_def spec_listAvailableBooks_def availableBooks_def
      array_includes_def has_entry_def author_name_def initial_page_def lower_simps
      dune_def emma_def authors_def)

end
